theory Spec2Isabelle
  imports Main "HOL-Library.Sublist" "HOL-Library.AList"
begin

section \<open>JavaScript values\<close>

text \<open>
  The payloads the cache stores are JavaScript values. The model keeps the distinctions
  the cache code reads: truthiness (the hit tests \<open>if (memoryCached)\<close>,
  \<open>if (redisCached)\<close>), the type (node-cache's size estimate) and whether
  \<open>JSON.stringify\<close> throws (a BigInt anywhere in the value). Numbers are integers;
  \<open>undefined\<close> is not a payload, it is the \<open>None\<close> of a lookup.

  One object is shared by reference and changes after a payload has been built from it:
  the counter object of node-cache, which \<open>getStats()\<close> hands out as it is and every
  \<open>get\<close>, \<open>set\<close> and \<open>del\<close> updates in place. \<open>JStatsObject n\<close> is the reference to
  such an object (\<open>flushAll\<close> makes a new one; \<open>n\<close> says how many had been retired
  when this one was made). What a payload holding it shows is read when the payload is
  serialized.
\<close>

datatype jsval =
    JNull
  | JBool bool
  | JNum int
  | JStr string
  | JBigInt int
  | JArr "jsval list"
  | JObj "(string \<times> jsval) list"
  | JStatsObject nat

datatype error =
    ECACHEFULL
  | SyntaxError
  | TypeError
  | RedisError
  | ClientClosedError
  | TooManyRetries
  | DatabaseError
  | MODULE_NOT_FOUND
  | MulterError

text \<open>JavaScript's ToBoolean on the values above.\<close>

fun truthy :: "jsval \<Rightarrow> bool" where
  "truthy JNull = False"
| "truthy (JBool b) = b"
| "truthy (JNum n) = (n \<noteq> 0)"
| "truthy (JStr s) = (s \<noteq> [])"
| "truthy (JBigInt n) = (n \<noteq> 0)"
| "truthy (JArr xs) = True"
| "truthy (JObj ps) = True"
| "truthy (JStatsObject n) = True"

text \<open>
  \<open>JSON.stringify\<close> throws a TypeError on a BigInt at any depth and succeeds on every
  other value of the model.
\<close>

fun serializable :: "jsval \<Rightarrow> bool" where
  "serializable (JBigInt n) = False"
| "serializable (JArr xs) = list_all serializable xs"
| "serializable (JObj ps) = list_all (\<lambda>p. serializable (snd p)) ps"
| "serializable _ = True"

text \<open>
  A string held by the distributed store is either the JSON text of a value
  (\<open>JsonText v\<close>, what \<open>JSON.stringify(v)\<close> returns, never empty) or some other
  string (\<open>RawText s\<close>, which \<open>JSON.parse\<close> rejects).
\<close>

datatype redis_string = JsonText jsval | RawText string

fun JSON_parse :: "redis_string \<Rightarrow> error + jsval" where
  "JSON_parse (JsonText d) = Inr d"
| "JSON_parse (RawText s) = Inl SyntaxError"

fun text_truthy :: "redis_string \<Rightarrow> bool" where
  "text_truthy (JsonText d) = True"
| "text_truthy (RawText s) = (s \<noteq> [])"

text \<open>\<open>String.prototype.includes\<close>: the search string occurs at some position.\<close>

fun str_includes :: "string \<Rightarrow> string \<Rightarrow> bool" where
  "str_includes [] p = (p = [])"
| "str_includes (c # s) p = (prefix p (c # s) \<or> str_includes s p)"

section \<open>The memory tier: node-cache\<close>

text \<open>
  \<open>new NodeCache({ stdTTL: 300, checkperiod: 60, useClones: false, maxKeys: 5000 })\<close>.
  The library is a dependency of the repository; its operations are modelled after its
  documented behaviour: an entry is the value wrapped with its expiry instant in
  milliseconds (\<open>0\<close>: never expires), \<open>set\<close> throws \<open>ECACHEFULL\<close> when the key
  counter has reached \<open>maxKeys\<close>, \<open>get\<close> deletes an expired entry and counts a miss.
\<close>

text \<open>The default lifetime; every call of \<open>set\<close> in the module passes its own.\<close>

definition stdTTL :: int where
  "stdTTL = 300"

definition maxKeys :: int where
  "maxKeys = 5000"

record entry =
  e_v :: jsval
  e_t :: int

record stats =
  hits :: int
  misses :: int
  keys :: int
  ksize :: int
  vsize :: int

text \<open>
  The cache object: its entries, its current counter object (\<open>stats\<close>) and the
  counter objects \<open>flushAll\<close> has replaced, oldest first, which no operation changes
  any more (\<open>retired\<close>).
\<close>

record NodeCache =
  data :: "(string \<times> entry) list"
  stats :: stats
  retired :: "stats list"

definition new_stats :: stats where
  "new_stats = \<lparr>hits = 0, misses = 0, keys = 0, ksize = 0, vsize = 0\<rparr>"

definition new_NodeCache :: NodeCache where
  "new_NodeCache = \<lparr>data = [], stats = new_stats, retired = []\<rparr>"

text \<open>
  The size estimate of a value, with the library's default sizes (array 40, object 80);
  the counter object has five properties.
\<close>

fun getValLength :: "jsval \<Rightarrow> int" where
  "getValLength (JStr s) = int (length s)"
| "getValLength (JArr xs) = 40 * int (length xs)"
| "getValLength (JNum n) = 8"
| "getValLength (JObj ps) = 80 * int (length ps)"
| "getValLength (JStatsObject n) = 80 * 5"
| "getValLength (JBool b) = 8"
| "getValLength _ = 0"

definition getKeyLength :: "string \<Rightarrow> int" where
  "getKeyLength key = int (length key)"

definition wrap :: "jsval \<Rightarrow> int \<Rightarrow> int \<Rightarrow> entry" where
  "wrap val ttl tnow =
     \<lparr>e_v = val, e_t = (if ttl = 0 then 0 else tnow + ttl * 1000)\<rparr>"

definition nc_set :: "string \<Rightarrow> jsval \<Rightarrow> int \<Rightarrow> int \<Rightarrow> NodeCache \<Rightarrow> error + NodeCache" where
  "nc_set key val ttl tnow c =
     (if maxKeys > -1 \<and> keys (stats c) \<ge> maxKeys then Inl ECACHEFULL
      else
        (case map_of (data c) key of
           Some old \<Rightarrow>
             Inr (c\<lparr>data := AList.update key (wrap val ttl tnow) (data c),
                    stats := (stats c)\<lparr>vsize := vsize (stats c) - getValLength (e_v old)
                                                 + getValLength val\<rparr>\<rparr>)
         | None \<Rightarrow>
             Inr (c\<lparr>data := AList.update key (wrap val ttl tnow) (data c),
                    stats := (stats c)\<lparr>vsize := vsize (stats c) + getValLength val,
                                       ksize := ksize (stats c) + getKeyLength key,
                                       keys := keys (stats c) + 1\<rparr>\<rparr>)))"

text \<open>\<open>del\<close> of one key: removes it when present and reports whether it did.\<close>

definition nc_del1 :: "string \<Rightarrow> NodeCache \<Rightarrow> nat \<times> NodeCache" where
  "nc_del1 key c =
     (case map_of (data c) key of
        Some old \<Rightarrow>
          (1, c\<lparr>data := AList.delete key (data c),
                stats := (stats c)\<lparr>vsize := vsize (stats c) - getValLength (e_v old),
                                   ksize := ksize (stats c) - getKeyLength key,
                                   keys := keys (stats c) - 1\<rparr>\<rparr>)
      | None \<Rightarrow> (0, c))"

text \<open>\<open>del\<close> of an array of keys: one after the other, counting the deletions.\<close>

fun nc_del :: "string list \<Rightarrow> NodeCache \<Rightarrow> nat \<times> NodeCache" where
  "nc_del [] c = (0, c)"
| "nc_del (key # ks) c =
     (let (n, c1) = nc_del1 key c; (m, c2) = nc_del ks c1 in (n + m, c2))"

definition nc_get :: "string \<Rightarrow> int \<Rightarrow> NodeCache \<Rightarrow> jsval option \<times> NodeCache" where
  "nc_get key tnow c =
     (case map_of (data c) key of
        Some e \<Rightarrow>
          if e_t e \<noteq> 0 \<and> e_t e < tnow
          then (let c1 = snd (nc_del1 key c)
                in (None, c1\<lparr>stats := (stats c1)\<lparr>misses := misses (stats c1) + 1\<rparr>\<rparr>))
          else (Some (e_v e), c\<lparr>stats := (stats c)\<lparr>hits := hits (stats c) + 1\<rparr>\<rparr>)
      | None \<Rightarrow> (None, c\<lparr>stats := (stats c)\<lparr>misses := misses (stats c) + 1\<rparr>\<rparr>))"

definition nc_keys :: "NodeCache \<Rightarrow> string list" where
  "nc_keys c = map fst (data c)"

text \<open>\<open>flushAll\<close> drops the entries and starts a new counter object.\<close>

definition nc_flushAll :: "NodeCache \<Rightarrow> NodeCache" where
  "nc_flushAll c = \<lparr>data = [], stats = new_stats, retired = retired c @ [stats c]\<rparr>"

text \<open>\<open>getStats\<close> returns the current counter object itself, not a copy.\<close>

definition nc_getStats :: "NodeCache \<Rightarrow> jsval" where
  "nc_getStats c = JStatsObject (length (retired c))"

text \<open>
  The library's invariant: a key is stored once (the entries are the properties of one
  object) and the counter \<open>keys\<close> is the number of stored entries.
\<close>

definition wf_cache :: "NodeCache \<Rightarrow> bool" where
  "wf_cache c = (distinct (map fst (data c)) \<and> keys (stats c) = int (length (data c)))"

subsection \<open>Serialization\<close>

text \<open>
  What a reference shows at the moment it is read: the retired objects are as they were
  left, every other reference is the current object.
\<close>

definition stats_object :: "stats \<Rightarrow> jsval" where
  "stats_object st =
     JObj [(''hits'', JNum (hits st)), (''misses'', JNum (misses st)), (''keys'', JNum (keys st)),
           (''ksize'', JNum (ksize st)), (''vsize'', JNum (vsize st))]"

definition stats_at :: "NodeCache \<Rightarrow> nat \<Rightarrow> stats" where
  "stats_at c n = (if n < length (retired c) then retired c ! n else stats c)"

text \<open>The value with every reference replaced by what it shows now.\<close>

fun deref :: "NodeCache \<Rightarrow> jsval \<Rightarrow> jsval" where
  "deref c (JStatsObject n) = stats_object (stats_at c n)"
| "deref c (JArr xs) = JArr (map (deref c) xs)"
| "deref c (JObj ps) = JObj (map (\<lambda>p. (fst p, deref c (snd p))) ps)"
| "deref c v = v"

text \<open>
  \<open>JSON.stringify\<close> throws a TypeError on a BigInt and otherwise gives the text of the
  value as the references show it at the call.
\<close>

definition JSON_stringify :: "NodeCache \<Rightarrow> jsval \<Rightarrow> error + redis_string" where
  "JSON_stringify c d = (if serializable d then Inr (JsonText (deref c d)) else Inl TypeError)"

section \<open>The distributed tier: the Redis client\<close>

text \<open>
  The store is a dependency too. \<open>KEYS\<close> takes a glob-style pattern, modelled after
  the server's documentation: \<open>*\<close> matches any run of characters, \<open>?\<close> one
  character, \<open>[...]\<close> one character of a class (negated by \<open>^\<close>, with ranges
  \<open>a-z\<close>), and a backslash escapes the character after it.
\<close>

definition in_range :: "char \<Rightarrow> char \<Rightarrow> char \<Rightarrow> bool" where
  "in_range a b x =
     (min (of_char a) (of_char b) \<le> (of_char x :: nat) \<and>
      (of_char x :: nat) \<le> max (of_char a) (of_char b))"

text \<open>Whether the class body (the pattern after \<open>[\<close> and \<open>^\<close>) admits a character.\<close>

fun class_match :: "string \<Rightarrow> char \<Rightarrow> bool" where
  "class_match [] x = False"
| "class_match [c] x = (c \<noteq> CHR '']'' \<and> c = x)"
| "class_match [c, d] x =
     (if c = CHR 0x5C then d = x
      else if c = CHR '']'' then False
      else (c = x \<or> class_match [d] x))"
| "class_match (c # d # e # p) x =
     (if c = CHR 0x5C then (d = x \<or> class_match (e # p) x)
      else if c = CHR '']'' then False
      else if d = CHR ''-'' then (in_range c e x \<or> class_match p x)
      else (c = x \<or> class_match (d # e # p) x))"

text \<open>How many pattern characters the class body takes, its closing bracket included.\<close>

fun class_len :: "string \<Rightarrow> nat" where
  "class_len [] = 0"
| "class_len [c] = 1"
| "class_len [c, d] =
     (if c = CHR 0x5C then 2
      else if c = CHR '']'' then 1
      else 1 + class_len [d])"
| "class_len (c # d # e # p) =
     (if c = CHR 0x5C then 2 + class_len (e # p)
      else if c = CHR '']'' then 1
      else if d = CHR ''-'' then 3 + class_len p
      else 1 + class_len (d # e # p))"

fun class_neg :: "string \<Rightarrow> bool" where
  "class_neg [] = False"
| "class_neg (c # p) = (c = CHR ''^'')"

fun class_body :: "string \<Rightarrow> string" where
  "class_body [] = []"
| "class_body (c # p) = (if c = CHR ''^'' then p else c # p)"

function glob :: "string \<Rightarrow> string \<Rightarrow> bool" where
  "glob [] s = (s = [])"
| "glob (c # p) [] = (c = CHR ''*'' \<and> glob p [])"
| "glob (c # p) (x # s) =
     (if c = CHR ''*'' then (glob p (x # s) \<or> glob (c # p) s)
      else if c = CHR ''?'' then glob p s
      else if c = CHR ''['' then
        ((class_match (class_body p) x \<noteq> class_neg p) \<and>
         glob (drop (class_len (class_body p)) (class_body p)) s)
      else if c = CHR 0x5C \<and> p \<noteq> [] then (hd p = x \<and> glob (tl p) s)
      else (c = x \<and> glob p s))"
  by pat_completeness auto
termination
  apply (relation "measure (\<lambda>(p, s). length p + length s)")
       apply auto
  subgoal for p by (cases p) auto
  done

text \<open>A pattern without the characters the matcher reads specially.\<close>

definition glob_special :: "char \<Rightarrow> bool" where
  "glob_special c = (c = CHR ''*'' \<or> c = CHR ''?'' \<or> c = CHR ''['' \<or> c = CHR 0x5C)"

definition glob_literal :: "string \<Rightarrow> bool" where
  "glob_literal p = list_all (\<lambda>c. \<not> glob_special c) p"

text \<open>
  The client and the keyspace it talks to. \<open>isOpen\<close> is the client's flag (set by
  \<open>connect\<close>); \<open>reachable\<close> says whether the server answers: a command sent while
  it does not is rejected. An entry is the stored string with its expiry instant in
  milliseconds; an expired entry is invisible to the reading commands (\<open>live\<close> is
  what they see).
\<close>

record RedisClient =
  isOpen :: bool
  reachable :: bool
  store :: "(string \<times> redis_string \<times> int) list"

definition live :: "int \<Rightarrow> (string \<times> redis_string \<times> int) list \<Rightarrow> (string \<times> redis_string \<times> int) list" where
  "live tnow st = filter (\<lambda>(k, txt, ex). tnow < ex) st"

definition rejected :: "RedisClient \<Rightarrow> error option" where
  "rejected r =
     (if \<not> isOpen r then Some ClientClosedError
      else if \<not> reachable r then Some RedisError
      else None)"

definition redis_get :: "string \<Rightarrow> int \<Rightarrow> RedisClient \<Rightarrow> error + redis_string option" where
  "redis_get key tnow r =
     (case rejected r of
        Some e \<Rightarrow> Inl e
      | None \<Rightarrow> Inr (map_option fst (map_of (live tnow (store r)) key)))"

definition redis_setEx :: "string \<Rightarrow> int \<Rightarrow> redis_string \<Rightarrow> int \<Rightarrow> RedisClient \<Rightarrow> error + RedisClient" where
  "redis_setEx key seconds txt tnow r =
     (case rejected r of
        Some e \<Rightarrow> Inl e
      | None \<Rightarrow>
          if seconds \<le> 0 then Inl RedisError
          else Inr (r\<lparr>store := AList.update key (txt, tnow + seconds * 1000) (store r)\<rparr>))"

definition redis_keys :: "string \<Rightarrow> int \<Rightarrow> RedisClient \<Rightarrow> error + string list" where
  "redis_keys pat tnow r =
     (case rejected r of
        Some e \<Rightarrow> Inl e
      | None \<Rightarrow> Inr (filter (glob pat) (map fst (live tnow (store r)))))"

definition redis_del :: "string list \<Rightarrow> int \<Rightarrow> RedisClient \<Rightarrow> error + nat \<times> RedisClient" where
  "redis_del ks tnow r =
     (case rejected r of
        Some e \<Rightarrow> Inl e
      | None \<Rightarrow>
          Inr (length (filter (\<lambda>k. k \<in> set ks) (map fst (live tnow (store r)))),
               r\<lparr>store := filter (\<lambda>(k, x). k \<notin> set ks) (store r)\<rparr>))"

definition redis_flushDb :: "RedisClient \<Rightarrow> error + RedisClient" where
  "redis_flushDb r =
     (case rejected r of
        Some e \<Rightarrow> Inl e
      | None \<Rightarrow> Inr (r\<lparr>store := []\<rparr>))"

section \<open>The cache module\<close>

text \<open>
  The module's two singletons, the clock the libraries read (\<open>Date.now()\<close>, in
  milliseconds) and what the logger has written.
\<close>

datatype log_entry =
    Debug_MemoryCacheHit string
  | Debug_RedisCacheHit string
  | Debug_CacheSet string int
  | Debug_ClearedCachePattern string nat
  | Debug_AllCacheCleared
  | Error_RedisSet error
  | Error_CacheMiddleware error
  | Error_ClearCache error
  | Error_ClearAllCache error
  | Error_SetCache error
  | Error_GetCache error
  | Error_FailedToStartServer error
  | Error_Global error
  | Info_RedisConnected
  | Info_DatabaseConnected

record state =
  memoryCache :: NodeCache
  redisClient :: RedisClient
  now :: int
  logs :: "log_entry list"

definition logger :: "log_entry \<Rightarrow> state \<Rightarrow> state" where
  "logger l s = s\<lparr>logs := logs s @ [l]\<rparr>"

text \<open>
  \<open>clearCacheByPattern\<close>. The function has no \<open>return\<close>: its promise resolves to
  \<open>undefined\<close>, the \<open>None\<close> of the first component. The count of keys goes to the
  debug log, and only when the client is open.
\<close>

definition clearCacheByPattern :: "string \<Rightarrow> state \<Rightarrow> jsval option \<times> state" where
  "clearCacheByPattern pattern s =
     (let memoryKeys = nc_keys (memoryCache s);
          keysToDelete = filter (\<lambda>key. str_includes key pattern) memoryKeys;
          s1 = s\<lparr>memoryCache := snd (nc_del keysToDelete (memoryCache s))\<rparr>
      in if isOpen (redisClient s1) then
           (case redis_keys (CHR ''*'' # pattern @ ''*'') (now s1) (redisClient s1) of
              Inl e \<Rightarrow> (None, logger (Error_ClearCache e) s1)
            | Inr redisKeys \<Rightarrow>
                if length redisKeys > 0 then
                  (case redis_del redisKeys (now s1) (redisClient s1) of
                     Inl e \<Rightarrow> (None, logger (Error_ClearCache e) s1)
                   | Inr (n, r) \<Rightarrow>
                       (None, logger (Debug_ClearedCachePattern pattern
                                        (length keysToDelete + length redisKeys))
                                (s1\<lparr>redisClient := r\<rparr>)))
                else (None, logger (Debug_ClearedCachePattern pattern
                                      (length keysToDelete + length redisKeys)) s1))
         else (None, s1))"

definition clearAllCache :: "state \<Rightarrow> state" where
  "clearAllCache s =
     (let s1 = s\<lparr>memoryCache := nc_flushAll (memoryCache s)\<rparr>
      in if isOpen (redisClient s1) then
           (case redis_flushDb (redisClient s1) of
              Inl e \<Rightarrow> logger (Error_ClearAllCache e) s1
            | Inr r \<Rightarrow> logger Debug_AllCacheCleared (s1\<lparr>redisClient := r\<rparr>))
         else logger Debug_AllCacheCleared s1)"

text \<open>
  \<open>getCacheStats\<close>: the \<open>memory\<close> field is the library's counter object, by
  reference; the \<open>redis\<close> field is a string of the moment of the call.
\<close>

definition getCacheStats :: "state \<Rightarrow> jsval" where
  "getCacheStats s =
     JObj [(''memory'', nc_getStats (memoryCache s)),
           (''redis'', JStr (if isOpen (redisClient s) then ''connected'' else ''disconnected''))]"

definition setCache :: "string \<Rightarrow> jsval \<Rightarrow> int \<Rightarrow> bool \<Rightarrow> state \<Rightarrow> state" where
  "setCache key d ttl useRedis s =
     (case nc_set key d (min ttl 300) (now s) (memoryCache s) of
        Inl e \<Rightarrow> logger (Error_SetCache e) s
      | Inr mc \<Rightarrow>
          (let s1 = s\<lparr>memoryCache := mc\<rparr>
           in if useRedis \<and> isOpen (redisClient s1) then
                (case JSON_stringify (memoryCache s1) d of
                   Inl e \<Rightarrow> logger (Error_SetCache e) s1
                 | Inr txt \<Rightarrow>
                     (case redis_setEx key ttl txt (now s1) (redisClient s1) of
                        Inl e \<Rightarrow> logger (Error_SetCache e) s1
                      | Inr r \<Rightarrow> s1\<lparr>redisClient := r\<rparr>))
              else s1))"

text \<open>
  \<open>getCache\<close>. The hit tests are JavaScript truthiness: a stored falsy value
  (\<open>null\<close>, \<open>false\<close>, \<open>0\<close>, the empty string) reads as a miss. Every throw inside
  (the command rejected, the parse, the memory tier full on the copy) ends in the
  \<open>catch\<close>, which returns \<open>null\<close>.
\<close>

definition getCache :: "string \<Rightarrow> bool \<Rightarrow> state \<Rightarrow> jsval \<times> state" where
  "getCache key useRedis s =
     (let (memoryData, mc) = nc_get key (now s) (memoryCache s);
          s1 = s\<lparr>memoryCache := mc\<rparr>;
          miss = (JNull, s1);
          distributed =
            (if useRedis \<and> isOpen (redisClient s1) then
               (case redis_get key (now s1) (redisClient s1) of
                  Inl e \<Rightarrow> (JNull, logger (Error_GetCache e) s1)
                | Inr None \<Rightarrow> miss
                | Inr (Some redisData) \<Rightarrow>
                    if text_truthy redisData then
                      (case JSON_parse redisData of
                         Inl e \<Rightarrow> (JNull, logger (Error_GetCache e) s1)
                       | Inr d \<Rightarrow>
                           (case nc_set key d 60 (now s1) (memoryCache s1) of
                              Inl e \<Rightarrow> (JNull, logger (Error_GetCache e) s1)
                            | Inr mc' \<Rightarrow> (d, s1\<lparr>memoryCache := mc'\<rparr>)))
                    else miss)
             else miss)
      in case memoryData of
           None \<Rightarrow> distributed
         | Some d \<Rightarrow> if truthy d then (d, s1) else distributed)"

section \<open>Observations on a state\<close>



text \<open>
  What the two lookups of the middleware and of \<open>getCache\<close> make of a state: the truthy
  value \<open>memoryCache.get(key)\<close> returns, if any; the truthy string
  \<open>redisClient.get(key)\<close> resolves to when the tier is consulted, or the command's
  error; and the state once the memory tier has counted its lookup.
\<close>

definition memory_lookup :: "string \<Rightarrow> state \<Rightarrow> jsval option" where
  "memory_lookup key s =
     (case fst (nc_get key (now s) (memoryCache s)) of
        None \<Rightarrow> None
      | Some d \<Rightarrow> if truthy d then Some d else None)"

definition redis_lookup :: "bool \<Rightarrow> string \<Rightarrow> state \<Rightarrow> error + redis_string option" where
  "redis_lookup useRedis key s =
     (if useRedis \<and> isOpen (redisClient s) then
        (case redis_get key (now s) (redisClient s) of
           Inl e \<Rightarrow> Inl e
         | Inr None \<Rightarrow> Inr None
         | Inr (Some txt) \<Rightarrow> if text_truthy txt then Inr (Some txt) else Inr None)
      else Inr None)"

definition after_get :: "string \<Rightarrow> state \<Rightarrow> state" where
  "after_get key s = s\<lparr>memoryCache := snd (nc_get key (now s) (memoryCache s))\<rparr>"

text \<open>The same state \<open>dt\<close> milliseconds later.\<close>

definition elapse :: "int \<Rightarrow> state \<Rightarrow> state" where
  "elapse dt s = s\<lparr>now := now s + dt\<rparr>"

text \<open>The property of an object.\<close>

fun field_of :: "string \<Rightarrow> jsval \<Rightarrow> jsval option" where
  "field_of name (JObj ps) = map_of ps name"
| "field_of name _ = None"

section \<open>The response-cache middleware\<close>

text \<open>
  A request as the middleware reads it (\<open>http_method\<close> is \<open>req.method\<close>), and
  the response's status code when the middleware runs. The rest of the chain
  (\<open>next()\<close>) is a handler that changes the state and answers once through
  \<open>res.status(code).json(data)\<close>. \<open>Sent code body\<close> says that Express's own
  \<open>res.json\<close> has written \<open>body\<close> under the status \<open>code\<close>;
  \<open>Raised e\<close> is an exception leaving \<open>res.json\<close> into its caller, nothing
  having been written.
\<close>

record request =
  http_method :: string
  originalUrl :: string

type_synonym handler = "state \<Rightarrow> state \<times> int \<times> jsval"

datatype outcome = Sent int jsval | Raised error

record result =
  response :: outcome
  handlerRan :: bool
  final :: state

text \<open>
  Express's own \<open>res.json\<close>: it serializes its argument and sends the text. The
  serialization throws on a BigInt, before anything is sent, and reads the shared
  counter object as the memory tier \<open>c\<close> has it then.
\<close>

definition express_json :: "NodeCache \<Rightarrow> int \<Rightarrow> jsval \<Rightarrow> outcome" where
  "express_json c code d = (if serializable d then Sent code (deref c d) else Raised TypeError)"

text \<open>\<open>next()\<close> while \<open>res.json\<close> is still Express's own.\<close>

definition next_unpatched :: "handler \<Rightarrow> state \<Rightarrow> result" where
  "next_unpatched h s =
     (let (s', code, d) = h s
      in \<lparr>response = express_json (memoryCache s') code d, handlerRan = True, final = s'\<rparr>)"

text \<open>
  The replacement of \<open>res.json\<close>. It runs when the handler answers, after the
  middleware's \<open>try\<close> block has ended: a throw of \<open>memoryCache.set\<close>, of
  \<open>JSON.stringify\<close> or of the original \<open>res.json\<close>, which it calls last, leaves
  it. The rejection of \<open>setEx\<close> is caught by its \<open>.catch\<close>. The write to the
  distributed tier is started, not awaited; the model lets it complete at once.
\<close>

definition patched_json :: "string \<Rightarrow> int \<Rightarrow> bool \<Rightarrow> int \<Rightarrow> jsval \<Rightarrow> state \<Rightarrow> outcome \<times> state" where
  "patched_json key duration useRedis statusCode d s =
     (let originalJson = (\<lambda>s'. (express_json (memoryCache s') statusCode d, s'))
      in if 200 \<le> statusCode \<and> statusCode < 300 then
           (case nc_set key d (min duration 300) (now s) (memoryCache s) of
              Inl e \<Rightarrow> (Raised e, s)
            | Inr mc \<Rightarrow>
                (let s1 = s\<lparr>memoryCache := mc\<rparr>
                 in if useRedis \<and> isOpen (redisClient s1) then
                      (case JSON_stringify (memoryCache s1) d of
                         Inl e \<Rightarrow> (Raised e, s1)
                       | Inr txt \<Rightarrow>
                           (case redis_setEx key duration txt (now s1) (redisClient s1) of
                              Inl e \<Rightarrow>
                                originalJson
                                  (logger (Error_RedisSet e) (logger (Debug_CacheSet key duration) s1))
                            | Inr r \<Rightarrow>
                                originalJson
                                  (logger (Debug_CacheSet key duration) (s1\<lparr>redisClient := r\<rparr>))))
                    else originalJson (logger (Debug_CacheSet key duration) s1)))
         else originalJson s)"

text \<open>\<open>next()\<close> after \<open>res.json\<close> has been replaced.\<close>

definition next_patched :: "string \<Rightarrow> int \<Rightarrow> bool \<Rightarrow> handler \<Rightarrow> state \<Rightarrow> result" where
  "next_patched key duration useRedis h s =
     (let (s', code, d) = h s;
          (out, s'') = patched_json key duration useRedis code d s'
      in \<lparr>response = out, handlerRan = True, final = s''\<rparr>)"

text \<open>
  The middleware. Both hits answer through \<open>res.json\<close> inside the \<open>try\<close> block: when
  that call throws, the \<open>catch\<close> logs and calls \<open>next()\<close>, as it does for every other
  throw in the block.
\<close>

definition cacheMiddleware :: "int \<Rightarrow> bool \<Rightarrow> request \<Rightarrow> int \<Rightarrow> handler \<Rightarrow> state \<Rightarrow> result" where
  "cacheMiddleware duration useRedis req statusCode h s =
     (if http_method req \<noteq> ''GET'' then next_unpatched h s
      else
        (let key = ''cache:'' @ originalUrl req;
             (memoryCached, mc) = nc_get key (now s) (memoryCache s);
             s1 = s\<lparr>memoryCache := mc\<rparr>;
             hit = (\<lambda>d s'. case express_json (memoryCache s') statusCode d of
                              Raised e \<Rightarrow> next_unpatched h (logger (Error_CacheMiddleware e) s')
                            | Sent code body \<Rightarrow>
                                \<lparr>response = Sent code body, handlerRan = False, final = s'\<rparr>);
             miss = next_patched key duration useRedis h s1;
             distributed =
               (if useRedis \<and> isOpen (redisClient s1) then
                  (case redis_get key (now s1) (redisClient s1) of
                     Inl e \<Rightarrow> next_unpatched h (logger (Error_CacheMiddleware e) s1)
                   | Inr None \<Rightarrow> miss
                   | Inr (Some redisCached) \<Rightarrow>
                       if text_truthy redisCached then
                         (case JSON_parse redisCached of
                            Inl e \<Rightarrow> next_unpatched h (logger (Error_CacheMiddleware e) s1)
                          | Inr d \<Rightarrow>
                              (let s2 = logger (Debug_RedisCacheHit key) s1
                               in case nc_set key d 60 (now s2) (memoryCache s2) of
                                    Inl e \<Rightarrow> next_unpatched h (logger (Error_CacheMiddleware e) s2)
                                  | Inr mc' \<Rightarrow> hit d (s2\<lparr>memoryCache := mc'\<rparr>)))
                       else miss)
                else miss)
         in case memoryCached of
              None \<Rightarrow> distributed
            | Some d \<Rightarrow>
                if truthy d then hit d (logger (Debug_MemoryCacheHit key) s1)
                else distributed))"

section \<open>The performance route\<close>

text \<open>
  \<open>app.get('/api/performance', cacheMiddleware(30, false), handler)\<close>, in
  \<open>src/app.js\<close>. What the handler and the error handlers read from the process is
  given: \<open>process.memoryUsage()\<close>, \<open>process.uptime()\<close>, \<open>process.env.NODE_ENV\<close>,
  the ISO timestamp, the absolute paths of the modules that are being loaded
  (\<open>requireStack\<close>) and the frames of a stack trace (\<open>stackFrames\<close>).
\<close>

record process_env =
  memoryUsage :: jsval
  uptime :: jsval
  NODE_ENV :: jsval
  timestamp :: string
  requireStack :: "string list"
  stackFrames :: string

text \<open>
  An exception as the error handlers read it: its class and its \<open>code\<close>,
  \<open>status\<close>, \<open>message\<close> and \<open>stack\<close> properties.
\<close>

record js_error =
  err_kind :: error
  err_code :: string
  err_status :: "int option"
  err_message :: string
  err_stack :: string

text \<open>
  The modules of the repository that \<open>server.js\<close> and \<open>src/app.js\<close> load from the
  \<open>middleware\<close>, \<open>utils\<close> and \<open>config\<close> directories, by their paths from the
  repository root. \<open>server.js\<close> is at the root and loads
  \<open>./src/middleware/cache\<close>; \<open>src/app.js\<close> loads the same module as
  \<open>./middleware/cache\<close>.
\<close>

definition repo_modules :: "string list" where
  "repo_modules =
     [''server.js'', ''src/app.js'',
      ''src/middleware/cache.js'', ''src/middleware/rateLimit.js'', ''src/middleware/upload.js'',
      ''src/utils/logger.js'', ''src/utils/fileUpload.js'',
      ''src/config/database.js'', ''src/config/socket.js'']"

text \<open>
  \<open>require(request)\<close> in a module of the directory \<open>dir\<close>, for a request that
  begins with \<open>./\<close>: the path is taken from the directory of the requiring module, and
  tried as a file, with the extensions, and as a directory. When nothing is found
  \<open>require\<close> throws an error with the code \<open>MODULE_NOT_FOUND\<close>.
\<close>

definition join_path :: "string \<Rightarrow> string \<Rightarrow> string" where
  "join_path dir request = (if dir = [] then drop 2 request else dir @ ''/'' @ drop 2 request)"

definition candidates :: "string \<Rightarrow> string list" where
  "candidates p =
     [p, p @ ''.js'', p @ ''.json'', p @ ''.node'',
      p @ ''/index.js'', p @ ''/index.json'', p @ ''/index.node'']"

definition not_found_message :: "string \<Rightarrow> process_env \<Rightarrow> string" where
  "not_found_message request env =
     ''Cannot find module '' @ [CHR 0x27] @ request @ [CHR 0x27] @ [CHR 0x0A] @ ''Require stack:''
       @ concat (map (\<lambda>p. [CHR 0x0A] @ ''- '' @ p) (requireStack env))"

definition require_from :: "string \<Rightarrow> string \<Rightarrow> process_env \<Rightarrow> js_error + string" where
  "require_from dir request env =
     (case find (\<lambda>f. f \<in> set repo_modules) (candidates (join_path dir request)) of
        Some f \<Rightarrow> Inr f
      | None \<Rightarrow>
          Inl \<lparr>err_kind = MODULE_NOT_FOUND, err_code = ''MODULE_NOT_FOUND'', err_status = None,
               err_message = not_found_message request env,
               err_stack = ''Error: '' @ not_found_message request env @ stackFrames env\<rparr>)"

text \<open>
  The error-handling middleware of the application, in the order of registration. An
  exception thrown by a route handler goes to \<open>handleMulterError\<close>, which answers
  (\<open>Some\<close>) or passes it on with \<open>next(error)\<close> (\<open>None\<close>) to the global error
  handler. Both answer through \<open>res.status(code).json(body)\<close>.
\<close>

definition handleMulterError :: "js_error \<Rightarrow> (int \<times> jsval) option" where
  "handleMulterError e =
     (if err_kind e = MulterError \<and> err_code e = ''LIMIT_FILE_SIZE'' then
        Some (400, JObj [(''success'', JBool False),
                         (''message'', JStr ''File too large. Maximum size is 10MB.'')])
      else if err_kind e = MulterError \<and> err_code e = ''LIMIT_FILE_COUNT'' then
        Some (400, JObj [(''success'', JBool False), (''message'', JStr ''Too many files.'')])
      else if err_kind e = MulterError \<and> err_code e = ''LIMIT_UNEXPECTED_FILE'' then
        Some (400, JObj [(''success'', JBool False), (''message'', JStr ''Unexpected field.'')])
      else if str_includes (err_message e) ''Only'' then
        Some (400, JObj [(''success'', JBool False), (''message'', JStr (err_message e))])
      else None)"

definition global_error_handler :: "process_env \<Rightarrow> request \<Rightarrow> js_error \<Rightarrow> state \<Rightarrow> state \<times> int \<times> jsval" where
  "global_error_handler env req e s =
     (let statusCode = (case err_status e of None \<Rightarrow> 500 | Some n \<Rightarrow> if n = 0 then 500 else n);
          message = (if err_message e = [] then ''Internal server error'' else err_message e);
          errorResponse =
            [(''success'', JBool False),
             (''message'', JStr message),
             (''path'', JStr (originalUrl req)),
             (''timestamp'', JStr (timestamp env)),
             (''version'', JStr ''2.0.0'')]
      in (logger (Error_Global (err_kind e)) s, statusCode,
          JObj (if NODE_ENV env = JStr ''development''
                then errorResponse @ [(''error'', JStr (err_message e)),
                                      (''stack'', JStr (err_stack e))]
                else errorResponse)))"

definition error_chain :: "process_env \<Rightarrow> request \<Rightarrow> js_error \<Rightarrow> state \<Rightarrow> state \<times> int \<times> jsval" where
  "error_chain env req e s =
     (case handleMulterError e of
        Some (code, body) \<Rightarrow> (s, code, body)
      | None \<Rightarrow> global_error_handler env req e s)"

text \<open>
  The handler of the route. Its first statement is
  \<open>require('./src/middleware/cache')\<close>, evaluated in \<open>src/app.js\<close>; an exception it
  throws is passed by Express to the error-handling middleware.
\<close>

definition performance_body :: "process_env \<Rightarrow> state \<Rightarrow> jsval" where
  "performance_body env s =
     JObj [(''status'', JStr ''OK''),
           (''cache'', getCacheStats s),
           (''memory'', memoryUsage env),
           (''uptime'', uptime env),
           (''environment'', NODE_ENV env),
           (''timestamp'', JStr (timestamp env))]"

definition performance_handler :: "process_env \<Rightarrow> request \<Rightarrow> handler" where
  "performance_handler env req s =
     (case require_from ''src'' ''./src/middleware/cache'' env of
        Inl e \<Rightarrow> error_chain env req e s
      | Inr f \<Rightarrow> (s, 200, performance_body env s))"

definition api_performance :: "process_env \<Rightarrow> request \<Rightarrow> int \<Rightarrow> state \<Rightarrow> result" where
  "api_performance env req statusCode s =
     cacheMiddleware 30 False req statusCode (performance_handler env req) s"

section \<open>Process startup\<close>

text \<open>
  The client's \<open>reconnectStrategy\<close>: the delay before the next attempt, or the error
  that ends the attempts.
\<close>

definition reconnectStrategy :: "nat \<Rightarrow> error + int" where
  "reconnectStrategy retries =
     (if retries > 10 then Inl TooManyRetries else Inr (min (int retries * 100) 3000))"

text \<open>
  \<open>redisClient.connect()\<close>: the socket is tried again after each failure as long as the
  strategy gives a delay; \<open>attempt n\<close> says whether the try after \<open>n\<close> failures
  gets through. The promise rejects with the strategy's error.
\<close>

function socket_connect :: "(nat \<Rightarrow> bool) \<Rightarrow> nat \<Rightarrow> error + nat" where
  "socket_connect attempt retries =
     (if attempt retries then Inr retries
      else (case reconnectStrategy retries of
              Inl e \<Rightarrow> Inl e
            | Inr delay \<Rightarrow> socket_connect attempt (Suc retries)))"
  by pat_completeness auto
termination
  by (relation "measure (\<lambda>(attempt, retries). 11 - retries)")
     (auto simp: reconnectStrategy_def split: if_splits)

declare socket_connect.simps [simp del]

definition redis_connect :: "(nat \<Rightarrow> bool) \<Rightarrow> RedisClient \<Rightarrow> error + RedisClient" where
  "redis_connect attempt r =
     (case socket_connect attempt 0 of
        Inl e \<Rightarrow> Inl e
      | Inr n \<Rightarrow> Inr (r\<lparr>isOpen := True, reachable := True\<rparr>))"

record startup_env =
  redisAttempt :: "nat \<Rightarrow> bool"
  databaseUp :: bool

definition connectDB :: "startup_env \<Rightarrow> error + unit" where
  "connectDB env = (if databaseUp env then Inr () else Inl DatabaseError)"

datatype process = Exited int state | Listening state

text \<open>
  \<open>startServer\<close>: both connections are awaited inside one \<open>try\<close>; its \<open>catch\<close>
  logs and calls \<open>process.exit(1)\<close>. The upload directories made before the
  connections, and the listening socket and signal handlers set up after them, are
  left out.
\<close>

definition startServer :: "startup_env \<Rightarrow> state \<Rightarrow> process" where
  "startServer env s =
     (case redis_connect (redisAttempt env) (redisClient s) of
        Inl e \<Rightarrow> Exited 1 (logger (Error_FailedToStartServer e) s)
      | Inr r \<Rightarrow>
          (let s1 = logger Info_RedisConnected (s\<lparr>redisClient := r\<rparr>)
           in case connectDB env of
                Inl e \<Rightarrow> Exited 1 (logger (Error_FailedToStartServer e) s1)
              | Inr u \<Rightarrow> Listening (logger Info_DatabaseConnected s1)))"

text \<open>
  The wrapper class \<open>RedisClient\<close> of the configuration module, which \<open>startServer\<close>
  does not use: its \<open>connect\<close> catches the failure and returns \<open>null\<close>, and its
  \<open>get\<close>, \<open>set\<close> and \<open>del\<close> answer without a command while not connected.
  (\<open>set\<close> serializes its value; \<open>c\<close> is the memory tier as it is then.)
\<close>

record RedisWrapper =
  client :: "RedisClient option"
  isConnected :: bool

definition new_client :: RedisClient where
  "new_client = \<lparr>isOpen = False, reachable = False, store = []\<rparr>"

definition wrapper_connect :: "(nat \<Rightarrow> bool) \<Rightarrow> RedisWrapper \<Rightarrow> RedisClient option \<times> RedisWrapper" where
  "wrapper_connect attempt w =
     (case redis_connect attempt new_client of
        Inl e \<Rightarrow> (None, \<lparr>client = Some new_client, isConnected = False\<rparr>)
      | Inr r \<Rightarrow> (Some r, \<lparr>client = Some r, isConnected = True\<rparr>))"

definition wrapper_get :: "string \<Rightarrow> int \<Rightarrow> RedisWrapper \<Rightarrow> jsval" where
  "wrapper_get key tnow w =
     (case client w of
        None \<Rightarrow> JNull
      | Some r \<Rightarrow>
          if \<not> isConnected w then JNull
          else (case redis_get key tnow r of
                  Inl e \<Rightarrow> JNull
                | Inr None \<Rightarrow> JNull
                | Inr (Some txt) \<Rightarrow>
                    if text_truthy txt
                    then (case JSON_parse txt of Inl e \<Rightarrow> JNull | Inr d \<Rightarrow> d)
                    else JNull))"

definition wrapper_set :: "NodeCache \<Rightarrow> string \<Rightarrow> jsval \<Rightarrow> int \<Rightarrow> int \<Rightarrow> RedisWrapper \<Rightarrow> bool \<times> RedisWrapper" where
  "wrapper_set c key val expireInSeconds tnow w =
     (case client w of
        None \<Rightarrow> (False, w)
      | Some r \<Rightarrow>
          if \<not> isConnected w then (False, w)
          else (case JSON_stringify c val of
                  Inl e \<Rightarrow> (False, w)
                | Inr txt \<Rightarrow>
                    (case redis_setEx key expireInSeconds txt tnow r of
                       Inl e \<Rightarrow> (False, w)
                     | Inr r' \<Rightarrow> (True, w\<lparr>client := Some r'\<rparr>))))"

definition wrapper_del :: "string \<Rightarrow> int \<Rightarrow> RedisWrapper \<Rightarrow> bool \<times> RedisWrapper" where
  "wrapper_del key tnow w =
     (case client w of
        None \<Rightarrow> (False, w)
      | Some r \<Rightarrow>
          if \<not> isConnected w then (False, w)
          else (case redis_del [key] tnow r of
                  Inl e \<Rightarrow> (False, w)
                | Inr (n, r') \<Rightarrow> (True, w\<lparr>client := Some r'\<rparr>)))"

section \<open>Example states\<close>

text \<open>A process that has just started: both tiers empty, the client not connected.\<close>

definition initial_state :: state where
  "initial_state =
     \<lparr>memoryCache = new_NodeCache, redisClient = new_client, now = 1000, logs = []\<rparr>"

text \<open>
  A memory tier at capacity, reached the way the application fills it: 5000 calls of
  \<open>setCache\<close> with distinct keys.
\<close>

definition key_of :: "nat \<Rightarrow> string" where
  "key_of n = ''item:'' @ replicate n CHR ''x''"

fun fill :: "nat \<Rightarrow> state \<Rightarrow> state" where
  "fill 0 s = s"
| "fill (Suc n) s = setCache (key_of n) (JNum 1) 300 False (fill n s)"

definition full_state :: state where
  "full_state = fill 5000 initial_state"

text \<open>A handler that answers \<open>200\<close> with a small object and changes nothing.\<close>

definition ok_handler :: handler where
  "ok_handler s = (s, 200, JObj [(''success'', JBool True)])"

definition products_request :: request where
  "products_request = \<lparr>http_method = ''GET'', originalUrl = ''/api/v1/products''\<rparr>"

text \<open>The same process once the client is connected to an empty store.\<close>

definition connected_state :: state where
  "connected_state =
     initial_state\<lparr>redisClient := \<lparr>isOpen = True, reachable = True, store = []\<rparr>\<rparr>"

text \<open>Three keys written to both tiers, two of them under \<open>products\<close>.\<close>

definition products_state :: state where
  "products_state =
     setCache ''other:c'' (JStr ''c'') 300 True
       (setCache ''products:b'' (JStr ''b'') 300 True
          (setCache ''products:a'' (JStr ''a'') 300 True connected_state))"




definition post_request :: request where
  "post_request = \<lparr>http_method = ''POST'', originalUrl = ''/api/v1/products''\<rparr>"





text \<open>
  A handler whose payload holds a BigInt, and the state its answer leaves behind the
  middleware while the client is closed.
\<close>

definition bigint_handler :: handler where
  "bigint_handler s = (s, 200, JObj [(''id'', JBigInt 1)])"

definition bigint_state :: state where
  "bigint_state =
     final (cacheMiddleware 300 True products_request 200 bigint_handler initial_state)"

text \<open>The client open, the store not answering.\<close>

definition unreachable_state :: state where
  "unreachable_state =
     products_state\<lparr>redisClient := (redisClient products_state)\<lparr>reachable := False\<rparr>\<rparr>"

text \<open>A request for the performance route in a production process.\<close>

definition perf_request :: request where
  "perf_request = \<lparr>http_method = ''GET'', originalUrl = ''/api/performance''\<rparr>"

definition env1 :: process_env where
  "env1 = \<lparr>memoryUsage = JObj [(''rss'', JNum 50000000)], uptime = JNum 12,
           NODE_ENV = JStr ''production'', timestamp = ''2024-01-01T00:00:12.000Z'',
           requireStack = [''/app/src/app.js'', ''/app/server.js''],
           stackFrames = []\<rparr>"

section \<open>Auxiliary facts\<close>

subsection \<open>Strings and patterns\<close>

lemma str_includes_sublist: "str_includes s p \<longleftrightarrow> sublist p s"
  by (induction s) (auto simp: sublist_Cons_right)

lemma glob_literal_Cons:
  "glob_literal (c # p) \<Longrightarrow>
     glob ((c # p) @ q) s = (case s of [] \<Rightarrow> False | x # t \<Rightarrow> c = x \<and> glob (p @ q) t)"
  by (cases s) (auto simp: glob_literal_def glob_special_def)

lemma glob_literal_prefix:
  "glob_literal p \<Longrightarrow> glob (p @ q) s \<longleftrightarrow> (\<exists>t. s = p @ t \<and> glob q t)"
proof (induction p arbitrary: s)
  case Nil
  then show ?case by simp
next
  case (Cons c p)
  from Cons.prems have lit: "glob_literal p" by (simp add: glob_literal_def)
  show ?case
    using Cons.IH [OF lit] glob_literal_Cons [OF Cons.prems, of q s]
    by (cases s) auto
qed

lemma glob_star: "glob (CHR ''*'' # q) s \<longleftrightarrow> (\<exists>u t. s = u @ t \<and> glob q t)"
proof (induction s)
  case Nil
  then show ?case by simp
next
  case (Cons x s)
  have "glob (CHR ''*'' # q) (x # s) \<longleftrightarrow> glob q (x # s) \<or> glob (CHR ''*'' # q) s"
    by simp
  also have "\<dots> \<longleftrightarrow> glob q (x # s) \<or> (\<exists>u t. s = u @ t \<and> glob q t)"
    using Cons.IH by simp
  also have "\<dots> \<longleftrightarrow> (\<exists>u t. x # s = u @ t \<and> glob q t)"
    by (auto simp: Cons_eq_append_conv)
  finally show ?case .
qed

lemma glob_only_star: "glob ''*'' s"
  by (induction s) auto

lemma glob_star_star: "glob ''**'' k"
  by (induction k) auto

lemma glob_substring:
  assumes "glob_literal p"
  shows "glob (CHR ''*'' # p @ ''*'') k \<longleftrightarrow> str_includes k p"
proof -
  have "glob (CHR ''*'' # p @ ''*'') k \<longleftrightarrow> (\<exists>u t. k = u @ t \<and> glob (p @ ''*'') t)"
    by (rule glob_star)
  also have "\<dots> \<longleftrightarrow> (\<exists>u t. k = u @ t \<and> (\<exists>w. t = p @ w))"
    using glob_literal_prefix [OF assms, of "''*''"] by (simp add: glob_only_star)
  also have "\<dots> \<longleftrightarrow> sublist p k"
    by (auto simp: sublist_def)
  finally show ?thesis by (simp add: str_includes_sublist)
qed

subsection \<open>The memory tier\<close>

lemma data_nc_del1: "data (snd (nc_del1 key c)) = AList.delete key (data c)"
  by (auto simp: nc_del1_def map_of_eq_None_iff split: option.splits)

lemma data_nc_del: "data (snd (nc_del ks c)) = filter (\<lambda>p. fst p \<notin> set ks) (data c)"
proof (induction ks arbitrary: c)
  case Nil
  then show ?case by simp
next
  case (Cons key ks)
  have "data (snd (nc_del (key # ks) c)) = data (snd (nc_del ks (snd (nc_del1 key c))))"
    by (simp add: split_beta)
  also have "\<dots> = filter (\<lambda>p. fst p \<notin> set ks) (AList.delete key (data c))"
    by (simp add: Cons.IH data_nc_del1)
  also have "\<dots> = filter (\<lambda>p. fst p \<notin> set (key # ks)) (data c)"
    by (auto simp: AList.delete_eq intro: filter_cong)
  finally show ?case .
qed

lemma nc_set_below:
  "keys (stats c) < maxKeys \<Longrightarrow>
     \<exists>c'. nc_set k v ttl t c = Inr c' \<and> map_of (data c') k = Some (wrap v ttl t)"
  by (auto simp: nc_set_def maxKeys_def update_conv' split: option.splits)

lemma nc_get_hit:
  assumes "map_of (data c) k = Some e" and "\<not> (e_t e \<noteq> 0 \<and> e_t e < t)"
  shows "nc_get k t c = (Some (e_v e), c\<lparr>stats := (stats c)\<lparr>hits := hits (stats c) + 1\<rparr>\<rparr>)"
  using assms by (auto simp: nc_get_def)

lemma update_new: "k \<notin> fst ` set al \<Longrightarrow> AList.update k v al = al @ [(k, v)]"
  by (induction al) auto

lemma length_update:
  "length (AList.update k v al) = (if k \<in> fst ` set al then length al else Suc (length al))"
  by (induction al) auto

lemma nc_set_Inr_below: "nc_set k v ttl t c = Inr c' \<Longrightarrow> keys (stats c) < maxKeys"
  by (auto simp: nc_set_def maxKeys_def split: if_splits)

lemma nc_set_Inl_full:
  "nc_set k v ttl t c = Inl e \<Longrightarrow> e = ECACHEFULL \<and> maxKeys \<le> keys (stats c)"
  by (auto simp: nc_set_def maxKeys_def split: if_splits option.splits)

lemma nc_set_full: "maxKeys \<le> keys (stats c) \<Longrightarrow> nc_set k v ttl t c = Inl ECACHEFULL"
  by (simp add: nc_set_def maxKeys_def)

lemma nc_set_wf:
  assumes "wf_cache c" and "nc_set k v ttl t c = Inr c'"
  shows "wf_cache c' \<and> int (length (data c')) \<le> maxKeys"
proof -
  from assms(2) have below: "keys (stats c) < maxKeys"
    by (rule nc_set_Inr_below)
  from assms(1) have d: "distinct (map fst (AList.update k (wrap v ttl t) (data c)))"
    by (simp add: wf_cache_def distinct_update)
  show ?thesis
  proof (cases "map_of (data c) k")
    case None
    then have "length (AList.update k (wrap v ttl t) (data c)) = Suc (length (data c))"
      by (simp add: length_update map_of_eq_None_iff)
    with assms below None d show ?thesis
      by (auto simp: nc_set_def wf_cache_def maxKeys_def)
  next
    case (Some old)
    then have "k \<in> fst ` set (data c)"
      by (metis map_of_eq_None_iff option.distinct(1))
    then have "length (AList.update k (wrap v ttl t) (data c)) = length (data c)"
      by (simp add: length_update)
    with assms below Some d show ?thesis
      by (auto simp: nc_set_def wf_cache_def maxKeys_def)
  qed
qed

subsection \<open>The facade\<close>

lemma memoryCache_setCache:
  "memoryCache (setCache k v ttl u s) =
     (case nc_set k v (min ttl 300) (now s) (memoryCache s) of
        Inl e \<Rightarrow> memoryCache s
      | Inr mc \<Rightarrow> mc)"
  by (auto simp: setCache_def Let_def logger_def split: sum.splits)

lemma setCache_local:
  "redisClient (setCache k v ttl False s) = redisClient s \<and> now (setCache k v ttl False s) = now s"
  by (auto simp: setCache_def Let_def logger_def split: sum.splits)

lemma setCache_memory:
  assumes "keys (stats (memoryCache s)) < maxKeys"
  shows "map_of (data (memoryCache (setCache k v ttl u s))) k = Some (wrap v (min ttl 300) (now s))
         \<and> now (setCache k v ttl u s) = now s"
proof -
  from nc_set_below [OF assms] obtain c' where
    c': "nc_set k v (min ttl 300) (now s) (memoryCache s) = Inr c'"
        "map_of (data c') k = Some (wrap v (min ttl 300) (now s))"
    by blast
  then show ?thesis
    by (auto simp: setCache_def Let_def logger_def split: sum.splits)
qed

lemma getCache_memory_hit:
  assumes "map_of (data (memoryCache s)) k = Some e"
    and "\<not> (e_t e \<noteq> 0 \<and> e_t e < now s)" and "truthy (e_v e)"
  shows "fst (getCache k u s) = e_v e"
  by (simp add: getCache_def nc_get_hit [OF assms(1,2)] assms(3))

subsection \<open>The state at capacity\<close>

lemma key_of_inj: "key_of i = key_of j \<Longrightarrow> i = j"
  by (metis key_of_def length_replicate same_append_eq)

lemma fill_inv:
  "n \<le> 5000 \<Longrightarrow>
     map fst (data (memoryCache (fill n initial_state))) = map key_of [0..<n] \<and>
     keys (stats (memoryCache (fill n initial_state))) = int n"
proof (induction n)
  case 0
  then show ?case by (simp add: initial_state_def new_NodeCache_def new_stats_def)
next
  case (Suc n)
  let ?s = "fill n initial_state"
  from Suc have ih: "map fst (data (memoryCache ?s)) = map key_of [0..<n]"
    "keys (stats (memoryCache ?s)) = int n" by auto
  have new: "key_of n \<notin> fst ` set (data (memoryCache ?s))"
  proof -
    have "fst ` set (data (memoryCache ?s)) = set (map fst (data (memoryCache ?s)))" by simp
    also have "\<dots> = key_of ` {0..<n}" by (simp add: ih(1))
    finally show ?thesis by (auto dest: key_of_inj)
  qed
  then have none: "map_of (data (memoryCache ?s)) (key_of n) = None"
    by (simp add: map_of_eq_None_iff)
  from Suc.prems ih(2) have below: "keys (stats (memoryCache ?s)) < maxKeys"
    by (simp add: maxKeys_def)
  show ?case
    using below none ih
    by (simp add: memoryCache_setCache nc_set_def maxKeys_def update_new [OF new])
qed

lemma fill_local:
  "redisClient (fill n s) = redisClient s \<and> now (fill n s) = now s"
  by (induction n) (simp_all add: setCache_local)

lemma full_state_keys: "map fst (data (memoryCache full_state)) = map key_of [0..<5000]"
  using fill_inv [of 5000] by (simp add: full_state_def)

lemma full_state_count: "keys (stats (memoryCache full_state)) = 5000"
  using fill_inv [of 5000] by (simp add: full_state_def)

lemma full_state_length: "length (data (memoryCache full_state)) = 5000"
  using arg_cong [OF full_state_keys, of length] by simp

lemma full_state_wf: "wf_cache (memoryCache full_state)"
proof -
  have "distinct (map key_of [0..<5000])"
    by (auto simp: distinct_map intro!: inj_onI dest: key_of_inj)
  then show ?thesis
    by (simp add: wf_cache_def full_state_keys full_state_count full_state_length)
qed

lemma full_state_absent:
  assumes "\<not> prefix ''item:'' k"
  shows "map_of (data (memoryCache full_state)) k = None"
proof -
  have "k \<notin> set (map fst (data (memoryCache full_state)))"
    unfolding full_state_keys using assms by (auto simp: key_of_def)
  then show ?thesis by (simp add: map_of_eq_None_iff)
qed

lemma full_state_client: "redisClient full_state = new_client" and full_state_now: "now full_state = 1000"
  using fill_local [of 5000 initial_state] by (simp_all add: full_state_def initial_state_def)

subsection \<open>Pattern invalidation\<close>

lemma str_includes_Nil: "str_includes k []"
  by (simp add: str_includes_sublist)



lemma live_filter: "live t (filter P st) = filter P (live t st)"
  by (auto simp: live_def intro: filter_cong)

lemma clear_fst: "fst (clearCacheByPattern p s) = None"
  by (auto simp: clearCacheByPattern_def Let_def split: sum.splits prod.splits)

lemma clear_memoryCache:
  "memoryCache (snd (clearCacheByPattern p s)) =
     snd (nc_del (filter (\<lambda>key. str_includes key p) (nc_keys (memoryCache s))) (memoryCache s))"
  by (auto simp: clearCacheByPattern_def Let_def logger_def split: sum.splits prod.splits)

lemma clear_memory_data:
  "data (memoryCache (snd (clearCacheByPattern p s))) =
     filter (\<lambda>e. \<not> str_includes (fst e) p) (data (memoryCache s))"
  by (auto simp: clear_memoryCache data_nc_del nc_keys_def intro: filter_cong)

lemma clear_closed:
  "\<not> isOpen (redisClient s) \<Longrightarrow> redisClient (snd (clearCacheByPattern p s)) = redisClient s"
  by (simp add: clearCacheByPattern_def Let_def)

lemma clear_unreachable:
  "\<not> reachable (redisClient s) \<Longrightarrow> redisClient (snd (clearCacheByPattern p s)) = redisClient s"
  by (simp add: clearCacheByPattern_def Let_def redis_keys_def rejected_def logger_def)

lemma clear_redis_store:
  assumes "isOpen (redisClient s)" and "reachable (redisClient s)"
  shows "live (now s) (store (redisClient (snd (clearCacheByPattern p s)))) =
           filter (\<lambda>e. \<not> glob (CHR ''*'' # p @ ''*'') (fst e)) (live (now s) (store (redisClient s)))"
proof -
  let ?pat = "CHR ''*'' # p @ ''*''"
  let ?vis = "live (now s) (store (redisClient s))"
  let ?ks = "filter (glob ?pat) (map fst ?vis)"
  have rej: "rejected (redisClient s) = None"
    using assms by (simp add: rejected_def)
  show ?thesis
  proof (cases "?ks = []")
    case True
    then have "\<forall>e \<in> set ?vis. \<not> glob ?pat (fst e)"
      by (auto simp: filter_empty_conv)
    then have "filter (\<lambda>e. \<not> glob ?pat (fst e)) ?vis = ?vis"
      by (simp add: filter_id_conv)
    moreover have "store (redisClient (snd (clearCacheByPattern p s))) = store (redisClient s)"
      using True assms rej
      by (simp add: clearCacheByPattern_def Let_def redis_keys_def logger_def)
    ultimately show ?thesis by simp
  next
    case False
    then have "length ?ks > 0" by (simp add: filter_map)
    then have "store (redisClient (snd (clearCacheByPattern p s))) =
                 filter (\<lambda>(k, x). k \<notin> set ?ks) (store (redisClient s))"
      using assms rej
      by (simp add: clearCacheByPattern_def Let_def redis_keys_def redis_del_def logger_def)
    then have "live (now s) (store (redisClient (snd (clearCacheByPattern p s)))) =
                 filter (\<lambda>(k, x). k \<notin> set ?ks) ?vis"
      by (simp add: live_filter)
    also have "\<dots> = filter (\<lambda>e. \<not> glob ?pat (fst e)) ?vis"
      by (rule filter_cong) force+
    finally show ?thesis .
  qed
qed

lemma clear_redis_literal:
  assumes "isOpen (redisClient s)" and "reachable (redisClient s)" and "glob_literal p"
  shows "live (now s) (store (redisClient (snd (clearCacheByPattern p s)))) =
           filter (\<lambda>e. \<not> str_includes (fst e) p) (live (now s) (store (redisClient s)))"
  by (simp add: clear_redis_store [OF assms(1,2)] glob_substring [OF assms(3)])


lemma clear_redis_logs:
  assumes "isOpen (redisClient s)" and "reachable (redisClient s)"
  shows "logs (snd (clearCacheByPattern p s)) =
           logs s @ [Debug_ClearedCachePattern p
             (length (filter (\<lambda>k. str_includes k p) (nc_keys (memoryCache s))) +
              length (filter (glob (CHR ''*'' # p @ ''*''))
                        (map fst (live (now s) (store (redisClient s))))))]"
  using assms
  by (simp add: clearCacheByPattern_def Let_def redis_keys_def redis_del_def logger_def rejected_def)

lemma clearAll_memory: "memoryCache (clearAllCache s) = nc_flushAll (memoryCache s)"
  by (auto simp: clearAllCache_def Let_def logger_def split: sum.splits)

lemma clearAll_redis:
  "redisClient (clearAllCache s) =
     (if isOpen (redisClient s) \<and> reachable (redisClient s)
      then (redisClient s)\<lparr>store := []\<rparr> else redisClient s)"
  by (auto simp: clearAllCache_def Let_def logger_def redis_flushDb_def rejected_def)




subsection \<open>The example states, evaluated\<close>

lemmas eval_defs =
  connected_state_def initial_state_def setCache_def nc_set_def nc_keys_def
  new_NodeCache_def new_stats_def new_client_def maxKeys_def Let_def JSON_stringify_def
  redis_setEx_def rejected_def wrap_def getKeyLength_def live_def

lemma products_state_eval:
  "products_state =
     \<lparr>memoryCache =
        \<lparr>data = [(''products:a'', \<lparr>e_v = JStr ''a'', e_t = 301000\<rparr>),
                 (''products:b'', \<lparr>e_v = JStr ''b'', e_t = 301000\<rparr>),
                 (''other:c'', \<lparr>e_v = JStr ''c'', e_t = 301000\<rparr>)],
         stats = \<lparr>hits = 0, misses = 0, keys = 3, ksize = 27, vsize = 3\<rparr>, retired = []\<rparr>,
      redisClient =
        \<lparr>isOpen = True, reachable = True,
         store = [(''products:a'', JsonText (JStr ''a''), 301000),
                  (''products:b'', JsonText (JStr ''b''), 301000),
                  (''other:c'', JsonText (JStr ''c''), 301000)]\<rparr>,
      now = 1000, logs = []\<rparr>"
  by (simp add: products_state_def eval_defs)


lemma clear_products_eval:
  "clearCacheByPattern ''products'' products_state =
     (None,
      \<lparr>memoryCache =
        \<lparr>data = [(''other:c'', \<lparr>e_v = JStr ''c'', e_t = 301000\<rparr>)],
         stats = \<lparr>hits = 0, misses = 0, keys = 1, ksize = 7, vsize = 1\<rparr>, retired = []\<rparr>,
      redisClient =
        \<lparr>isOpen = True, reachable = True,
         store = [(''other:c'', JsonText (JStr ''c''), 301000)]\<rparr>,
      now = 1000, logs = [Debug_ClearedCachePattern ''products'' 4]\<rparr>)"
  by (simp add: products_state_eval clearCacheByPattern_def nc_keys_def nc_del1_def Let_def
      redis_keys_def redis_del_def rejected_def live_def logger_def getKeyLength_def)

subsection \<open>The middleware\<close>

lemma nc_get_absent:
  "map_of (data c) k = None \<Longrightarrow>
     nc_get k t c = (None, c\<lparr>stats := (stats c)\<lparr>misses := misses (stats c) + 1\<rparr>\<rparr>)"
  by (simp add: nc_get_def)

lemma patched_json_full:
  assumes "maxKeys \<le> keys (stats (memoryCache s))" and "200 \<le> code" and "code < 300"
  shows "patched_json key duration useRedis code d s = (Raised ECACHEFULL, s)"
  using assms by (simp add: patched_json_def nc_set_full Let_def)

lemma after_get_simps [simp]:
  "redisClient (after_get key s) = redisClient s"
  "now (after_get key s) = now s"
  "logs (after_get key s) = logs s"
  by (simp_all add: after_get_def)





lemma redis_lookup_off: "redis_lookup False key s = Inr None"
  by (simp add: redis_lookup_def)




text \<open>After a miss in the memory tier the middleware goes by the distributed lookup.\<close>

lemma mw_memory_miss:
  assumes "http_method req = ''GET''" and "memory_lookup (''cache:'' @ originalUrl req) s = None"
  shows "cacheMiddleware duration useRedis req code h s =
     (let key = ''cache:'' @ originalUrl req; s1 = after_get key s
      in case redis_lookup useRedis key s of
           Inl e \<Rightarrow> next_unpatched h (logger (Error_CacheMiddleware e) s1)
         | Inr None \<Rightarrow> next_patched key duration useRedis h s1
         | Inr (Some txt) \<Rightarrow>
             (case JSON_parse txt of
                Inl e \<Rightarrow> next_unpatched h (logger (Error_CacheMiddleware e) s1)
              | Inr d \<Rightarrow>
                 (let s2 = logger (Debug_RedisCacheHit key) s1
                  in case nc_set key d 60 (now s2) (memoryCache s2) of
                       Inl e \<Rightarrow> next_unpatched h (logger (Error_CacheMiddleware e) s2)
                     | Inr mc' \<Rightarrow>
                         (case express_json mc' code d of
                            Raised e \<Rightarrow>
                              next_unpatched h
                                (logger (Error_CacheMiddleware e) (s2\<lparr>memoryCache := mc'\<rparr>))
                          | Sent c b \<Rightarrow>
                              \<lparr>response = Sent c b, handlerRan = False,
                               final = s2\<lparr>memoryCache := mc'\<rparr>\<rparr>))))"
  using assms
  by (auto simp: cacheMiddleware_def memory_lookup_def redis_lookup_def after_get_def Let_def
      split_beta split: option.splits if_splits sum.splits)


text \<open>A status outside \<open>[200, 300)\<close> makes the replaced \<open>res.json\<close> the original one.\<close>

lemma next_patched_not_2xx:
  assumes "h s = (s', c, d)" and "\<not> (200 \<le> c \<and> c < 300)"
  shows "next_patched key duration useRedis h s = next_unpatched h s"
  using assms by (auto simp: next_patched_def next_unpatched_def patched_json_def Let_def)

lemma next_unpatched_eq:
  "h s = (s', c, d) \<Longrightarrow>
     next_unpatched h s =
       \<lparr>response = express_json (memoryCache s') c d, handlerRan = True, final = s'\<rparr>"
  by (simp add: next_unpatched_def)




text \<open>
  A payload that cannot be serialized is written to the memory tier before the original
  \<open>res.json\<close> throws on it. The next \<open>GET\<close> finds it, cannot send it, and runs the
  handler.
\<close>

lemma memory_hit_unserializable_example:
  "response (cacheMiddleware 300 True products_request 200 bigint_handler initial_state) =
     Raised TypeError \<and>
   memory_lookup ''cache:/api/v1/products'' bigint_state = Some (JObj [(''id'', JBigInt 1)]) \<and>
   handlerRan (cacheMiddleware 300 True products_request 200 ok_handler bigint_state) \<and>
   response (cacheMiddleware 300 True products_request 200 ok_handler bigint_state) =
     Sent 200 (JObj [(''success'', JBool True)])"
  by (simp add: bigint_state_def cacheMiddleware_def next_patched_def next_unpatched_def
      patched_json_def express_json_def bigint_handler_def ok_handler_def products_request_def
      initial_state_def new_NodeCache_def new_stats_def new_client_def nc_get_def nc_set_def
      maxKeys_def wrap_def getKeyLength_def memory_lookup_def logger_def Let_def)

text \<open>A lookup that misses leaves a memory tier in which it misses again.\<close>

lemma memory_lookup_after_get:
  "memory_lookup key s = None \<Longrightarrow> memory_lookup key (after_get key s) = None"
  by (auto simp: memory_lookup_def after_get_def nc_get_def nc_del1_def Let_def delete_conv'
      split: option.splits if_splits)

subsection \<open>The performance route\<close>

text \<open>
  The path the handler asks for does not exist: from \<open>src/app.js\<close> it names
  \<open>src/src/middleware/cache\<close>. The same module is found under the path the head of
  the file uses, and under the handler's path from \<open>server.js\<close>.
\<close>

lemma require_performance:
  "require_from ''src'' ''./src/middleware/cache'' env =
     Inl \<lparr>err_kind = MODULE_NOT_FOUND, err_code = ''MODULE_NOT_FOUND'', err_status = None,
          err_message = not_found_message ''./src/middleware/cache'' env,
          err_stack = ''Error: '' @ not_found_message ''./src/middleware/cache'' env
                        @ stackFrames env\<rparr>"
  by (simp add: require_from_def join_path_def candidates_def repo_modules_def)

lemma require_app: "require_from ''src'' ''./middleware/cache'' env = Inr ''src/middleware/cache.js''"
  by (simp add: require_from_def join_path_def candidates_def repo_modules_def)

lemma require_server:
  "require_from [] ''./src/middleware/cache'' env = Inr ''src/middleware/cache.js''"
  by (simp add: require_from_def join_path_def candidates_def repo_modules_def)

text \<open>
  A payload built from \<open>getCacheStats()\<close> shows the counters the memory tier has when
  the payload is serialized, not those of the call.
\<close>

lemma getCacheStats_sent:
  "length (retired c) = length (retired (memoryCache s)) \<Longrightarrow>
     express_json c code (getCacheStats s) =
       Sent code
         (JObj [(''memory'', stats_object (stats c)),
                (''redis'', JStr (if isOpen (redisClient s) then ''connected''
                                  else ''disconnected''))])"
  by (simp add: express_json_def getCacheStats_def nc_getStats_def stats_at_def)

lemma not_found_message_nonempty: "not_found_message request env \<noteq> []"
  by (simp add: not_found_message_def)

text \<open>What the rest of the chain answers, and what it leaves of the state.\<close>

lemma performance_handler_answer:
  "\<exists>s' c b. performance_handler env req x = (s', c, JObj b) \<and> (c = 400 \<or> c = 500) \<and>
     memoryCache s' = memoryCache x \<and> redisClient s' = redisClient x \<and> now s' = now x \<and>
     map_of b ''success'' = Some (JBool False) \<and> map_of b ''cache'' = None \<and>
     serializable (JObj b) \<and> (\<forall>m. deref m (JObj b) = JObj b)"
  by (simp add: performance_handler_def require_performance error_chain_def
      handleMulterError_def global_error_handler_def logger_def Let_def)

subsection \<open>Lifetimes\<close>

text \<open>One millisecond after its lifetime the entry of the memory tier is gone.\<close>

lemma getCache_after_expiry_example:
  "fst (getCache ''k'' True (elapse 30001 (setCache ''k'' (JStr ''v'') 30 True initial_state))) =
     JNull"
  by (simp add: elapse_def initial_state_def setCache_def getCache_def nc_set_def nc_get_def
      nc_del1_def new_NodeCache_def new_stats_def new_client_def maxKeys_def wrap_def Let_def
      getKeyLength_def)






subsection \<open>More example states, evaluated\<close>

lemmas lookup_defs =
  memory_lookup_def redis_lookup_def after_get_def nc_get_def redis_get_def

lemma requests_eval:
  "http_method post_request \<noteq> ''GET''" "http_method products_request = ''GET''"
  "originalUrl products_request = ''/api/v1/products''"
  "http_method perf_request = ''GET''" "originalUrl perf_request = ''/api/performance''"
  by (simp_all add: post_request_def products_request_def perf_request_def)





subsection \<open>Startup\<close>

lemma socket_connect_never: "socket_connect (\<lambda>n. False) retries = Inl TooManyRetries"
proof (induction "11 - retries" arbitrary: retries)
  case 0
  then show ?case by (simp add: socket_connect.simps reconnectStrategy_def)
next
  case (Suc k)
  then show ?case by (simp add: socket_connect.simps [of _ retries] reconnectStrategy_def)
qed

lemma wrapper_connect_never:
  "wrapper_connect (\<lambda>n. False) w = (None, \<lparr>client = Some new_client, isConnected = False\<rparr>)"
  by (simp add: wrapper_connect_def redis_connect_def socket_connect_never)

lemma wrapper_get_degraded:
  "wrapper_get key t (snd (wrapper_connect (\<lambda>n. False) w)) = JNull"
  by (simp add: wrapper_connect_never wrapper_get_def)

lemma wrapper_set_degraded:
  "fst (wrapper_set c key v ttl t (snd (wrapper_connect (\<lambda>n. False) w))) = False"
  by (simp add: wrapper_connect_never wrapper_set_def)

lemma wrapper_del_degraded:
  "fst (wrapper_del key t (snd (wrapper_connect (\<lambda>n. False) w))) = False"
  by (simp add: wrapper_connect_never wrapper_del_def)

section \<open>The claims\<close>

text \<open>
  C4. If the connection to the distributed cache fails at startup, the process is meant to
  keep serving with the distributed tier unavailable. \<open>startServer\<close> does not: when
  no attempt gets through, \<open>connect\<close> rejects with the strategy's error, the
  \<open>catch\<close> logs it and the process exits with code 1, whatever the state and whether
  or not the database is up. The wrapper class absorbs the same failure
  (\<open>wrapper_connect_never\<close>) and then answers \<open>null\<close> and \<open>false\<close>
  without a command (\<open>wrapper_get_degraded\<close>, \<open>wrapper_set_degraded\<close>,
  \<open>wrapper_del_degraded\<close>).
\<close>

theorem startServer_exits_without_redis:
  "startServer \<lparr>redisAttempt = (\<lambda>n. False), databaseUp = b\<rparr> s =
     Exited 1 (logger (Error_FailedToStartServer TooManyRetries) s)"
  by (simp add: startServer_def redis_connect_def socket_connect_never)

text \<open>
  C7. After \<open>setCache(k, v, ttl)\<close> with \<open>ttl > 0\<close> in a process whose memory tier is
  below capacity, a \<open>getCache(k)\<close> that follows with no write and no invalidation in
  between, and before the entry of the memory tier expires (at most \<open>min(ttl, 300)\<close>
  seconds after the write), returns \<open>v\<close>, provided \<open>v\<close> is truthy: the hit test of
  \<open>getCache\<close> is the truthiness of the stored value. The time that has passed since
  the write, while \<open>setCache\<close> waited for the distributed tier and afterwards, is
  \<open>dt\<close>.
\<close>

theorem setCache_then_getCache:
  assumes "0 < ttl" and "truthy v" and "keys (stats (memoryCache s)) < maxKeys"
    and "0 \<le> dt" and "dt \<le> min ttl 300 * 1000"
  shows "fst (getCache k useRedis' (elapse dt (setCache k v ttl useRedis s))) = v"
proof -
  let ?s' = "elapse dt (setCache k v ttl useRedis s)"
  have m: "map_of (data (memoryCache ?s')) k = Some (wrap v (min ttl 300) (now s))"
    and n: "now ?s' = now s + dt"
    using setCache_memory [OF assms(3)] by (auto simp: elapse_def)
  have "\<not> (e_t (wrap v (min ttl 300) (now s)) \<noteq> 0 \<and> e_t (wrap v (min ttl 300) (now s)) < now ?s')"
    using assms(1,5) by (auto simp: wrap_def n min_def)
  with getCache_memory_hit [OF m] assms(2) show ?thesis
    by (simp add: wrap_def)
qed

theorem setCache_then_getCache_witness:
  "(0::int) < 30 \<and> truthy (JStr ''v'') \<and> keys (stats (memoryCache initial_state)) < maxKeys \<and>
   (0::int) \<le> 30000 \<and> (30000::int) \<le> min 30 300 * 1000 \<and>
   fst (getCache ''k'' True (elapse 30000 (setCache ''k'' (JStr ''v'') 30 True initial_state))) =
     JStr ''v''"
proof -
  have h: "keys (stats (memoryCache initial_state)) < maxKeys"
    by (simp add: initial_state_def new_NodeCache_def new_stats_def maxKeys_def)
  have t: "truthy (JStr ''v'')" by simp
  show ?thesis
    using h t
      setCache_then_getCache [where ttl = 30 and v = "JStr ''v''" and s = initial_state
        and dt = 30000 and k = "''k''" and useRedis = True and useRedis' = True]
    by simp
qed

text \<open>
  The claim as stated, for every value, fails at the value \<open>0\<close> while the distributed
  tier is closed: the stored \<open>0\<close> reads as a miss and \<open>getCache\<close> returns \<open>null\<close>.
\<close>

theorem setCache_then_getCache_falsy_counterexample:
  "(0::int) < 300 \<and> keys (stats (memoryCache initial_state)) < maxKeys \<and>
   fst (getCache ''k'' True (setCache ''k'' (JNum 0) 300 True initial_state)) = JNull \<and>
   fst (getCache ''k'' True (setCache ''k'' (JNum 0) 300 True initial_state)) \<noteq> JNum 0"
  by (simp add: initial_state_def setCache_def getCache_def nc_set_def nc_get_def
      new_NodeCache_def new_stats_def new_client_def maxKeys_def wrap_def Let_def
      getKeyLength_def)

text \<open>
  C5. A memory tier is never over its ceiling of 5000 keys, but a \<open>set\<close> at the ceiling
  does not evict: node-cache throws \<open>ECACHEFULL\<close>, and \<open>setCache\<close> logs the error
  and does nothing else. Neither tier is written (the throw comes before the
  distributed write), the entries already there stay, and a key that was not stored is
  not stored afterwards. Below the ceiling the write keeps the invariant and the bound.
\<close>

theorem setCache_at_capacity:
  assumes "wf_cache (memoryCache s)" and "int (length (data (memoryCache s))) \<le> maxKeys"
  shows "wf_cache (memoryCache (setCache k v ttl useRedis s)) \<and>
         int (length (data (memoryCache (setCache k v ttl useRedis s)))) \<le> maxKeys \<and>
         (int (length (data (memoryCache s))) = maxKeys \<longrightarrow>
            setCache k v ttl useRedis s = logger (Error_SetCache ECACHEFULL) s \<and>
            memoryCache (setCache k v ttl useRedis s) = memoryCache s \<and>
            redisClient (setCache k v ttl useRedis s) = redisClient s \<and>
            logs (setCache k v ttl useRedis s) = logs s @ [Error_SetCache ECACHEFULL] \<and>
            (map_of (data (memoryCache s)) k = None \<longrightarrow>
               map_of (data (memoryCache (setCache k v ttl useRedis s))) k = None))"
proof (cases "nc_set k v (min ttl 300) (now s) (memoryCache s)")
  case (Inl e)
  then have "e = ECACHEFULL"
    using nc_set_Inl_full by blast
  with Inl assms show ?thesis
    by (auto simp: setCache_def logger_def)
next
  case (Inr mc)
  then have "keys (stats (memoryCache s)) < maxKeys"
    by (rule nc_set_Inr_below)
  with assms(1) have "int (length (data (memoryCache s))) \<noteq> maxKeys"
    by (simp add: wf_cache_def)
  with nc_set_wf [OF assms(1) Inr] Inr show ?thesis
    by (simp add: memoryCache_setCache)
qed

theorem setCache_at_capacity_witness:
  "wf_cache (memoryCache full_state) \<and>
   int (length (data (memoryCache full_state))) = maxKeys \<and>
   map_of (data (memoryCache full_state)) ''new'' = None \<and>
   setCache ''new'' (JNum 1) 300 True full_state = logger (Error_SetCache ECACHEFULL) full_state \<and>
   memoryCache (setCache ''new'' (JNum 1) 300 True full_state) = memoryCache full_state \<and>
   redisClient (setCache ''new'' (JNum 1) 300 True full_state) = redisClient full_state \<and>
   logs (setCache ''new'' (JNum 1) 300 True full_state) =
     logs full_state @ [Error_SetCache ECACHEFULL] \<and>
   map_of (data (memoryCache (setCache ''new'' (JNum 1) 300 True full_state))) ''new'' = None"
proof -
  have len: "int (length (data (memoryCache full_state))) = maxKeys"
    by (simp add: full_state_length maxKeys_def)
  then have le: "int (length (data (memoryCache full_state))) \<le> maxKeys" by simp
  have absent: "map_of (data (memoryCache full_state)) ''new'' = None"
    by (rule full_state_absent) simp
  show ?thesis
    using setCache_at_capacity [OF full_state_wf le, of "''new''" "JNum 1" 300 True] len
      full_state_wf absent
    by (simp add: logger_def)
qed

text \<open>
  The claim as stated fails at the state reached by 5000 writes: the memory tier holds
  5000 keys, \<open>new\<close> is not one of them, and after \<open>setCache\<close> it still is not.
\<close>

theorem setCache_at_capacity_counterexample:
  "length (data (memoryCache full_state)) = 5000 \<and>
   map_of (data (memoryCache full_state)) ''new'' = None \<and>
   map_of (data (memoryCache (setCache ''new'' (JNum 1) 300 True full_state))) ''new'' = None"
proof -
  have "maxKeys \<le> keys (stats (memoryCache full_state))"
    by (simp add: full_state_count maxKeys_def)
  then have "memoryCache (setCache ''new'' (JNum 1) 300 True full_state) = memoryCache full_state"
    by (simp add: memoryCache_setCache nc_set_full)
  moreover have "map_of (data (memoryCache full_state)) ''new'' = None"
    by (rule full_state_absent) simp
  ultimately show ?thesis by (simp add: full_state_length)
qed

text \<open>
  C3. No operation of the cache subsystem is meant to let an exception reach the request
  handling. The replaced \<open>res.json\<close> does: it runs outside the middleware's \<open>try\<close>,
  so with the memory tier at capacity a \<open>GET\<close> that misses, answered \<open>200\<close> by its
  handler, ends with \<open>ECACHEFULL\<close> thrown from \<open>res.json\<close> into the handler, and
  nothing is sent.
\<close>

theorem patched_json_throws_at_capacity:
  "response (cacheMiddleware 300 True products_request 200 ok_handler full_state) =
     Raised ECACHEFULL \<and>
   handlerRan (cacheMiddleware 300 True products_request 200 ok_handler full_state)"
proof -
  have absent: "map_of (data (memoryCache full_state)) ''cache:/api/v1/products'' = None"
    by (rule full_state_absent) simp
  have closed: "\<not> isOpen (redisClient full_state)"
    by (simp add: full_state_client new_client_def)
  have full: "maxKeys \<le> keys (stats (memoryCache full_state))"
    by (simp add: full_state_count maxKeys_def)
  show ?thesis
    using closed full
    by (simp add: cacheMiddleware_def products_request_def nc_get_absent [OF absent]
        next_patched_def ok_handler_def patched_json_full)
qed

text \<open>
  C1. For every pattern and every state, \<open>clearCacheByPattern\<close> returns nothing
  (\<open>undefined\<close>) and removes from the memory tier exactly the entries whose key
  contains the pattern, leaving the others as they were. While the client is closed the
  distributed tier is not touched. While it is open and the store answers, and the
  pattern has no glob character, the same holds of the distributed tier, and the debug
  log gets the number of matching keys of the two tiers together.
\<close>

theorem clearCacheByPattern_removes_matching:
  "fst (clearCacheByPattern p s) = None \<and>
   data (memoryCache (snd (clearCacheByPattern p s))) =
     filter (\<lambda>e. \<not> str_includes (fst e) p) (data (memoryCache s)) \<and>
   (\<not> isOpen (redisClient s) \<longrightarrow>
      redisClient (snd (clearCacheByPattern p s)) = redisClient s) \<and>
   (isOpen (redisClient s) \<and> reachable (redisClient s) \<and> glob_literal p \<longrightarrow>
      live (now s) (store (redisClient (snd (clearCacheByPattern p s)))) =
        filter (\<lambda>e. \<not> str_includes (fst e) p) (live (now s) (store (redisClient s))) \<and>
      logs (snd (clearCacheByPattern p s)) =
        logs s @ [Debug_ClearedCachePattern p
          (length (filter (\<lambda>k. str_includes k p) (nc_keys (memoryCache s))) +
           length (filter (\<lambda>k. str_includes k p)
                     (map fst (live (now s) (store (redisClient s))))))])"
proof -
  have "glob_literal p \<Longrightarrow> glob (CHR ''*'' # p @ ''*'') = (\<lambda>k. str_includes k p)"
    by (rule ext) (simp add: glob_substring)
  then show ?thesis
    by (simp add: clear_fst clear_memory_data clear_closed clear_redis_literal clear_redis_logs)
qed

theorem clearCacheByPattern_removes_matching_witness:
  "isOpen (redisClient products_state) \<and> reachable (redisClient products_state) \<and>
   glob_literal ''products'' \<and>
   map fst (data (memoryCache products_state)) = [''products:a'', ''products:b'', ''other:c''] \<and>
   map fst (data (memoryCache (snd (clearCacheByPattern ''products'' products_state)))) =
     [''other:c''] \<and>
   map fst (live 1000 (store (redisClient products_state))) =
     [''products:a'', ''products:b'', ''other:c''] \<and>
   map fst (live 1000 (store (redisClient (snd (clearCacheByPattern ''products'' products_state))))) =
     [''other:c''] \<and>
   logs (snd (clearCacheByPattern ''products'' products_state)) =
     [Debug_ClearedCachePattern ''products'' 4] \<and>
   \<not> isOpen (redisClient initial_state) \<and>
   redisClient (snd (clearCacheByPattern ''products'' initial_state)) = redisClient initial_state"
proof -
  have lit: "glob_literal ''products''"
    by (simp add: glob_literal_def glob_special_def)
  have closed: "\<not> isOpen (redisClient initial_state)"
    by (simp add: initial_state_def new_client_def)
  show ?thesis
    using clearCacheByPattern_removes_matching [of "''products''" products_state]
      clearCacheByPattern_removes_matching [of "''products''" initial_state] lit closed
    by (simp add: products_state_eval live_def nc_keys_def)
qed

text \<open>
  The claim as stated fails twice. With the three keys of the specification's example in
  both tiers, \<open>clearCacheByPattern("products")\<close> removes four keys and returns
  \<open>undefined\<close>, not the count. And the pattern \<open>?\<close>, which no key contains, removes
  nothing from the memory tier and every key from the distributed tier, since
  \<open>*?*\<close> is a glob.
\<close>

theorem clearCacheByPattern_count_counterexample:
  "map fst (data (memoryCache products_state)) = [''products:a'', ''products:b'', ''other:c''] \<and>
   map fst (store (redisClient products_state)) = [''products:a'', ''products:b'', ''other:c''] \<and>
   map fst (data (memoryCache (snd (clearCacheByPattern ''products'' products_state)))) =
     [''other:c''] \<and>
   map fst (store (redisClient (snd (clearCacheByPattern ''products'' products_state)))) =
     [''other:c''] \<and>
   fst (clearCacheByPattern ''products'' products_state) = None \<and>
   fst (clearCacheByPattern ''products'' products_state) \<noteq> Some (JNum 4) \<and>
   \<not> str_includes ''other:c'' ''?'' \<and>
   map fst (data (memoryCache (snd (clearCacheByPattern ''?'' products_state)))) =
     [''products:a'', ''products:b'', ''other:c''] \<and>
   store (redisClient (snd (clearCacheByPattern ''?'' products_state))) = []"
  by (simp add: clear_products_eval)
     (simp add: products_state_eval clearCacheByPattern_def nc_keys_def Let_def
        redis_keys_def redis_del_def rejected_def live_def logger_def)




text \<open>
  C10. The empty pattern evicts everything: for every state,
  \<open>clearCacheByPattern("")\<close> leaves the memory tier without entries and, while the
  client is open and the store answers the commands, the distributed tier without
  visible keys (\<open>**\<close> matches every key). The keys left in each tier are those
  \<open>clearAllCache\<close> leaves. Nothing is asked of the pattern.
\<close>

theorem clearCacheByPattern_empty_pattern:
  "data (memoryCache (snd (clearCacheByPattern [] s))) = [] \<and>
   (isOpen (redisClient s) \<and> reachable (redisClient s) \<longrightarrow>
      live (now s) (store (redisClient (snd (clearCacheByPattern [] s)))) = []) \<and>
   nc_keys (memoryCache (snd (clearCacheByPattern [] s))) =
     nc_keys (memoryCache (clearAllCache s)) \<and>
   map fst (live (now s) (store (redisClient (snd (clearCacheByPattern [] s))))) =
     map fst (live (now s) (store (redisClient (clearAllCache s))))"
proof -
  have lit: "glob_literal []" by (simp add: glob_literal_def)
  have mem: "data (memoryCache (snd (clearCacheByPattern [] s))) = []"
    by (simp add: clear_memory_data str_includes_Nil del: str_includes.simps)
  have red: "live (now s) (store (redisClient (snd (clearCacheByPattern [] s)))) = []"
    if "isOpen (redisClient s) \<and> reachable (redisClient s)"
    using that
    by (simp add: clear_redis_literal [OF _ _ lit] str_includes_Nil del: str_includes.simps)
  have same: "redisClient (snd (clearCacheByPattern [] s)) = redisClient s"
    if "\<not> (isOpen (redisClient s) \<and> reachable (redisClient s))"
    using that clear_closed clear_unreachable by blast
  show ?thesis
    using mem red same
    by (auto simp: nc_keys_def clearAll_memory clearAll_redis nc_flushAll_def live_def)
qed

theorem clearCacheByPattern_empty_pattern_witness:
  "isOpen (redisClient products_state) \<and> reachable (redisClient products_state) \<and>
   length (data (memoryCache products_state)) = 3 \<and>
   length (live (now products_state) (store (redisClient products_state))) = 3 \<and>
   data (memoryCache (snd (clearCacheByPattern [] products_state))) = [] \<and>
   live (now products_state) (store (redisClient (snd (clearCacheByPattern [] products_state)))) = []"
proof -
  have o: "isOpen (redisClient products_state) \<and> reachable (redisClient products_state)"
    by (simp add: products_state_eval)
  have n: "length (data (memoryCache products_state)) = 3"
    "length (live (now products_state) (store (redisClient products_state))) = 3"
    by (simp_all add: products_state_eval live_def)
  show ?thesis
    using clearCacheByPattern_empty_pattern [of products_state] o n by simp
qed

text \<open>
  The claim as stated, for every state in which the client is open, fails while the
  store does not answer: the \<open>KEYS\<close> command is rejected, the \<open>catch\<close> logs the
  error, and the three keys of the distributed tier stay, the memory tier having been
  emptied.
\<close>

theorem clearCacheByPattern_empty_unreachable_counterexample:
  "isOpen (redisClient unreachable_state) \<and>
   map fst (store (redisClient unreachable_state)) =
     [''products:a'', ''products:b'', ''other:c''] \<and>
   data (memoryCache (snd (clearCacheByPattern [] unreachable_state))) = [] \<and>
   map fst (store (redisClient (snd (clearCacheByPattern [] unreachable_state)))) =
     [''products:a'', ''products:b'', ''other:c''] \<and>
   logs (snd (clearCacheByPattern [] unreachable_state)) = [Error_ClearCache RedisError]"
  by (simp add: unreachable_state_def products_state_eval clearCacheByPattern_def nc_keys_def
      nc_del1_def Let_def redis_keys_def rejected_def logger_def getKeyLength_def)







text \<open>
  C9. A \<open>GET\<close> of the performance route is meant to be answered \<open>200\<close> with the body
  \<open>{status, cache, memory, uptime, environment, timestamp}\<close>. It never is. The
  handler's first statement asks, from \<open>src/app.js\<close>, for the module
  \<open>./src/middleware/cache\<close>, a path that exists from the repository root only;
  \<open>require\<close> throws, and the request is answered by the error-handling middleware:
  \<open>500\<close> by the global handler, or \<open>400\<close> by \<open>handleMulterError\<close> when the
  message, which holds the paths of the process, contains \<open>Only\<close>. The body has
  \<open>success: false\<close> and no \<open>cache\<close> field. Nothing is written to the response
  cache, so the next request misses and fails again. The only requests answered
  otherwise are those that find a value under the route's key in the memory tier, where
  the route never puts one.
\<close>

theorem api_performance_fails:
  assumes "http_method req = ''GET''"
    and "memory_lookup (''cache:'' @ originalUrl req) s = None"
  shows "(\<exists>e. require_from ''src'' ''./src/middleware/cache'' env = Inl e \<and>
              err_kind e = MODULE_NOT_FOUND) \<and>
         (\<exists>c b. response (api_performance env req code s) = Sent c (JObj b) \<and>
                (c = 400 \<or> c = 500) \<and>
                map_of b ''success'' = Some (JBool False) \<and> map_of b ''cache'' = None) \<and>
         handlerRan (api_performance env req code s) \<and>
         memoryCache (final (api_performance env req code s)) =
           memoryCache (after_get (''cache:'' @ originalUrl req) s) \<and>
         redisClient (final (api_performance env req code s)) = redisClient s \<and>
         memory_lookup (''cache:'' @ originalUrl req) (final (api_performance env req code s)) =
           None"
proof -
  define key where "key = ''cache:'' @ originalUrl req"
  let ?r = "api_performance env req code s"
  let ?h = "performance_handler env req"
  obtain s' c b where h: "?h (after_get key s) = (s', c, JObj b)"
    and c: "c = 400 \<or> c = 500"
    and st: "memoryCache s' = memoryCache (after_get key s)"
      "redisClient s' = redisClient (after_get key s)" "now s' = now (after_get key s)"
    and b: "map_of b ''success'' = Some (JBool False)" "map_of b ''cache'' = None"
      "serializable (JObj b)" "\<forall>m. deref m (JObj b) = JObj b"
    using performance_handler_answer [of env req "after_get key s"] by blast
  from c have not2xx: "\<not> (200 \<le> c \<and> c < 300)" by auto
  have "?r = next_patched key 30 False ?h (after_get key s)"
    using assms unfolding key_def
    by (simp add: api_performance_def mw_memory_miss redis_lookup_off Let_def)
  also have "\<dots> = next_unpatched ?h (after_get key s)"
    using h not2xx by (rule next_patched_not_2xx)
  also have "\<dots> = \<lparr>response = Sent c (JObj b), handlerRan = True, final = s'\<rparr>"
    using h b(3,4) by (simp add: next_unpatched_def express_json_def del: deref.simps)
  finally have eq: "?r = \<lparr>response = Sent c (JObj b), handlerRan = True, final = s'\<rparr>" .
  have again: "memory_lookup key s' = None"
    using memory_lookup_after_get [of key s] assms(2) st
    unfolding key_def by (simp add: memory_lookup_def)
  have req: "\<exists>e. require_from ''src'' ''./src/middleware/cache'' env = Inl e \<and>
      err_kind e = MODULE_NOT_FOUND"
    by (simp add: require_performance)
  show ?thesis
    using req eq c b(1,2) st again unfolding key_def by simp
qed

theorem api_performance_fails_witness:
  "http_method perf_request = ''GET'' \<and>
   memory_lookup ''cache:/api/performance'' connected_state = None \<and>
   response (api_performance env1 perf_request 200 connected_state) =
     Sent 500
       (JObj [(''success'', JBool False),
              (''message'',
               JStr (not_found_message ''./src/middleware/cache'' env1)),
              (''path'', JStr ''/api/performance''),
              (''timestamp'', JStr ''2024-01-01T00:00:12.000Z''),
              (''version'', JStr ''2.0.0'')]) \<and>
   handlerRan (api_performance env1 perf_request 200 connected_state) \<and>
   memoryCache (final (api_performance env1 perf_request 200 connected_state)) =
     memoryCache (after_get ''cache:/api/performance'' connected_state) \<and>
   data (memoryCache (final (api_performance env1 perf_request 200 connected_state))) = [] \<and>
   memory_lookup ''cache:/api/performance''
     (final (api_performance env1 perf_request 200 connected_state)) = None"
proof -
  note r = requests_eval
  have m: "memory_lookup ''cache:/api/performance'' connected_state = None"
    by (simp add: eval_defs lookup_defs)
  have only: "\<not> str_includes (not_found_message ''./src/middleware/cache'' env1) ''Only''"
    by (simp add: not_found_message_def env1_def)
  have resp: "response (api_performance env1 perf_request 200 connected_state) =
     Sent 500
       (JObj [(''success'', JBool False),
              (''message'',
               JStr (not_found_message ''./src/middleware/cache'' env1)),
              (''path'', JStr ''/api/performance''),
              (''timestamp'', JStr ''2024-01-01T00:00:12.000Z''),
              (''version'', JStr ''2.0.0'')])"
    using only not_found_message_nonempty [of "''./src/middleware/cache''" env1]
    by (simp add: api_performance_def mw_memory_miss [OF r(4)] r m redis_lookup_off Let_def
        next_patched_def patched_json_def express_json_def performance_handler_def
        require_performance error_chain_def handleMulterError_def global_error_handler_def
        env1_def del: str_includes.simps)
  have empty: "data (memoryCache (after_get ''cache:/api/performance'' connected_state)) = []"
    by (simp add: eval_defs lookup_defs)
  show ?thesis
    using api_performance_fails
        [where req = perf_request and s = connected_state and env = env1 and code = 200]
      r m resp empty
    by simp
qed

end
